theory Spec2Isabelle
  imports Main "HOL-Library.Word"
begin

section \<open>Failures of the virtual machine\<close>

text \<open>
  HotSpot's \<^verbatim>\<open>assert(cond, msg)\<close> (checked in debug builds) and
  \<^verbatim>\<open>guarantee(cond, msg)\<close> (checked in every build) stop the virtual machine when
  the condition is false. Both are results of the model: a function that can fail
  returns \<open>vm_error + 'a\<close>, with \<open>Inl\<close> for the failure and the message of the source.
  The model is the debug build, where both checks are active.
\<close>

datatype vm_error = assert_failed string | guarantee_failed string

section \<open>ZSafeDelete (gc/z/zSafeDelete.inline.hpp)\<close>

text \<open>
  \<^verbatim>\<open>ZSafeDeleteImpl<T>\<close> has the fields \<^verbatim>\<open>_lock\<close>, \<^verbatim>\<open>_enabled\<close> and
  \<^verbatim>\<open>_deferred\<close>. The class declaration (gc/z/zSafeDelete.hpp) is not among the
  sources at hand; the counter \<^verbatim>\<open>_enabled\<close>, which the code initialises with 0,
  increments, decrements and compares with 0, is the unsigned 64-bit integer
  \<^verbatim>\<open>uint64_t\<close>, so \<^verbatim>\<open>_enabled++\<close> and \<^verbatim>\<open>--_enabled\<close> wrap around.
  \<^verbatim>\<open>_deferred\<close> is a \<^verbatim>\<open>ZArray<ItemT*>\<close>, a growable array used here through
  \<^verbatim>\<open>append\<close>, \<^verbatim>\<open>swap\<close> and an iterator from index 0 upwards: a list of item
  pointers, of any type \<open>'a\<close>.

  The lock only serialises the callers; the model is one caller at a time, and each
  function below is the effect of one complete call.

  The effect of the C++ \<^verbatim>\<open>delete\<close> expressions is on the C++ heap, outside the
  object. The model records it in the component \<open>deleted\<close>: the items that have been
  handed to \<^verbatim>\<open>delete\<close> or \<^verbatim>\<open>delete []\<close>, in the order of the calls.
\<close>

type_synonym uint64_t = "64 word"

datatype 'a delete_expr = delete_scalar 'a | delete_array 'a

record 'a ZSafeDeleteImpl =
  enabled :: uint64_t
  deferred :: "'a list"
  deleted :: "'a delete_expr list"

text \<open>The constructor: \<^verbatim>\<open>_enabled(0), _deferred()\<close>; nothing has been deleted yet.\<close>

definition ZSafeDeleteImpl :: "'a ZSafeDeleteImpl" where
  "ZSafeDeleteImpl = \<lparr>enabled = 0, deferred = [], deleted = []\<rparr>"

text \<open>\<^verbatim>\<open>deferred_delete\<close> returns its boolean result and the object after the call.\<close>

definition deferred_delete :: "'a \<Rightarrow> 'a ZSafeDeleteImpl \<Rightarrow> bool \<times> 'a ZSafeDeleteImpl" where
  "deferred_delete item s =
     (if 0 < enabled s then (True, s\<lparr>deferred := deferred s @ [item]\<rparr>)
      else (False, s))"

text \<open>
  \<^verbatim>\<open>immediate_delete\<close>: \<open>is_array\<close> is \<^verbatim>\<open>std::is_array<T>::value\<close>, fixed by the
  template argument.
\<close>

definition immediate_delete :: "bool \<Rightarrow> 'a \<Rightarrow> 'a ZSafeDeleteImpl \<Rightarrow> 'a ZSafeDeleteImpl" where
  "immediate_delete is_array item s =
     (if is_array then s\<lparr>deleted := deleted s @ [delete_array item]\<rparr>
      else s\<lparr>deleted := deleted s @ [delete_scalar item]\<rparr>)"

definition enable_deferred_delete :: "'a ZSafeDeleteImpl \<Rightarrow> 'a ZSafeDeleteImpl" where
  "enable_deferred_delete s = s\<lparr>enabled := enabled s + 1\<rparr>"

text \<open>
  The loop at the end of \<^verbatim>\<open>disable_deferred_delete\<close>: the iterator yields the
  elements of the local array from the first to the last.
\<close>

fun delete_each :: "bool \<Rightarrow> 'a list \<Rightarrow> 'a ZSafeDeleteImpl \<Rightarrow> 'a ZSafeDeleteImpl" where
  "delete_each is_array [] s = s"
| "delete_each is_array (item # rest) s = delete_each is_array rest (immediate_delete is_array item s)"

text \<open>
  \<^verbatim>\<open>disable_deferred_delete\<close>: the local array starts empty; when the decremented
  counter is zero, \<^verbatim>\<open>swap\<close> exchanges it with \<^verbatim>\<open>_deferred\<close>.
\<close>

definition disable_deferred_delete :: "bool \<Rightarrow> 'a ZSafeDeleteImpl \<Rightarrow> vm_error + 'a ZSafeDeleteImpl" where
  "disable_deferred_delete is_array s =
     (if \<not> 0 < enabled s then Inl (assert_failed ''Invalid state'')
      else
        let local = [];
            s1 = s\<lparr>enabled := enabled s - 1\<rparr>;
            (local, s2) = (if enabled s1 = 0 then (deferred s1, s1\<lparr>deferred := local\<rparr>)
                           else (local, s1))
        in Inr (delete_each is_array local s2))"

text \<open>\<^verbatim>\<open>operator()\<close>.\<close>

definition operator_call :: "bool \<Rightarrow> 'a \<Rightarrow> 'a ZSafeDeleteImpl \<Rightarrow> 'a ZSafeDeleteImpl" where
  "operator_call is_array item s =
     (case deferred_delete item s of
        (True, s1) \<Rightarrow> s1
      | (False, s1) \<Rightarrow> immediate_delete is_array item s1)"

text \<open>The form of \<^verbatim>\<open>delete\<close> that \<^verbatim>\<open>immediate_delete\<close> uses for an item.\<close>

definition delete_of :: "bool \<Rightarrow> 'a \<Rightarrow> 'a delete_expr" where
  "delete_of is_array item = (if is_array then delete_array item else delete_scalar item)"

subsection \<open>Sequences of calls\<close>

text \<open>
  The calls on one object, and a sequence of them executed from left to right; a
  failed assertion ends the sequence, as it ends the virtual machine.
\<close>

datatype 'a call = Enable | Disable | Delete 'a | Deferred_delete 'a

fun exec :: "bool \<Rightarrow> 'a call \<Rightarrow> 'a ZSafeDeleteImpl \<Rightarrow> vm_error + 'a ZSafeDeleteImpl" where
  "exec a Enable s = Inr (enable_deferred_delete s)"
| "exec a Disable s = disable_deferred_delete a s"
| "exec a (Delete item) s = Inr (operator_call a item s)"
| "exec a (Deferred_delete item) s = Inr (snd (deferred_delete item s))"

fun run :: "bool \<Rightarrow> 'a call list \<Rightarrow> 'a ZSafeDeleteImpl \<Rightarrow> vm_error + 'a ZSafeDeleteImpl" where
  "run a [] s = Inr s"
| "run a (c # cs) s = (case exec a c s of Inl e \<Rightarrow> Inl e | Inr s' \<Rightarrow> run a cs s')"

text \<open>
  Balanced usage: every \<open>Disable\<close> is matched by an earlier \<open>Enable\<close> that is not
  matched yet. The first argument counts the enables that are unmatched so far, as a
  natural number; \<open>unmatched\<close> is that count at the end of the sequence.
\<close>

fun balanced :: "nat \<Rightarrow> 'a call list \<Rightarrow> bool" where
  "balanced n [] = True"
| "balanced n (Enable # cs) = balanced (Suc n) cs"
| "balanced n (Disable # cs) = (0 < n \<and> balanced (n - 1) cs)"
| "balanced n (c # cs) = balanced n cs"

fun unmatched :: "nat \<Rightarrow> 'a call list \<Rightarrow> nat" where
  "unmatched n [] = n"
| "unmatched n (Enable # cs) = unmatched (Suc n) cs"
| "unmatched n (Disable # cs) = unmatched (n - 1) cs"
| "unmatched n (c # cs) = unmatched n cs"

text \<open>The invariant: a counter of zero comes with an empty deferred list.\<close>

definition deferred_invariant :: "'a ZSafeDeleteImpl \<Rightarrow> bool" where
  "deferred_invariant s \<longleftrightarrow> (enabled s = 0 \<longrightarrow> deferred s = [])"

section \<open>MetaspaceShared (memory/metaspaceShared.hpp)\<close>

text \<open>
  The model is a 64-bit build with class data sharing compiled in (\<^verbatim>\<open>INCLUDE_CDS\<close>):
  pointers, \<^verbatim>\<open>uintx\<close>, \<^verbatim>\<open>intx\<close> and \<^verbatim>\<open>size_t\<close> are 64-bit words (\<open>sint\<close> reads an
  \<^verbatim>\<open>intx\<close>), \<^verbatim>\<open>u4\<close> is a 32-bit word, and the \<^verbatim>\<open>CDS_ONLY\<close> branches are the code.
\<close>

type_synonym address = "64 word"
type_synonym uintx = "64 word"
type_synonym intx = "64 word"
type_synonym size_t = "64 word"
type_synonym u4 = "32 word"

text \<open>\<^verbatim>\<open>#define MAX_SHARED_DELTA (0x7FFFFFFF)\<close>, an integer constant.\<close>

definition MAX_SHARED_DELTA :: int where
  "MAX_SHARED_DELTA = 0x7FFFFFFF"


subsection \<open>The region indices\<close>

text \<open>The anonymous enumeration of the class, one definition for each enumerator.\<close>

definition mc :: int where "mc = 0"
definition rw :: int where "rw = 1"
definition ro :: int where "ro = 2"
definition bm :: int where "bm = 3"
definition num_core_region :: int where "num_core_region = 3"
definition num_non_heap_spaces :: int where "num_non_heap_spaces = 4"

definition first_closed_archive_heap_region :: int where
  "first_closed_archive_heap_region = bm + 1"

definition max_closed_archive_heap_region :: int where
  "max_closed_archive_heap_region = 2"

definition last_closed_archive_heap_region :: int where
  "last_closed_archive_heap_region =
     first_closed_archive_heap_region + max_closed_archive_heap_region - 1"

definition first_open_archive_heap_region :: int where
  "first_open_archive_heap_region = last_closed_archive_heap_region + 1"

definition max_open_archive_heap_region :: int where
  "max_open_archive_heap_region = 2"

definition last_open_archive_heap_region :: int where
  "last_open_archive_heap_region =
     first_open_archive_heap_region + max_open_archive_heap_region - 1"

definition last_valid_region :: int where
  "last_valid_region = last_open_archive_heap_region"

definition n_regions :: int where
  "n_regions = last_valid_region + 1"

subsection \<open>The process-wide state\<close>

text \<open>
  Modelled from the spec: a region as the loader sees it, "a contiguous span with
  kind, byte size, offset and permission class (read-execute, read-write, read-only)".
  The descriptors of the mapped regions belong to \<^verbatim>\<open>FileMapInfo\<close>, which is not among
  the sources at hand; the kind is the index of the region in the table below.
\<close>

datatype permission = read_execute | read_write | read_only

record region =
  mapped_base :: address
  byte_size :: size_t
  permission :: permission

text \<open>
  The static data members of \<^verbatim>\<open>MetaspaceShared\<close>: the member \<^verbatim>\<open>_x\<close> is the
  component \<open>s_x\<close>. \<^verbatim>\<open>ReservedSpace\<close>, \<^verbatim>\<open>VirtualSpace\<close> and
  \<^verbatim>\<open>MetaspaceSharedStats\<close> are classes of other files; their values are of the
  types \<open>'rs\<close>, \<open>'vs\<close> and \<open>'stats\<close>, about which nothing is assumed.

  The last components are the state outside the class that its functions read: the
  flags \<^verbatim>\<open>DumpSharedSpaces\<close> and \<^verbatim>\<open>UseSharedSpaces\<close> of the virtual machine, the
  range of the shared metaspace kept by \<^verbatim>\<open>MetaspaceObj\<close> (set through
  \<^verbatim>\<open>set_shared_metaspace_range\<close>), and the table of the mapped regions by index.
\<close>

record ('rs, 'vs, 'stats) MetaspaceShared =
  s_shared_rs :: 'rs
  s_shared_vs :: 'vs
  s_symbol_rs :: 'rs
  s_symbol_vs :: 'vs
  s_max_alignment :: int
  s_stats :: 'stats
  s_has_error_classes :: bool
  s_archive_loading_failed :: bool
  s_remapped_readwrite :: bool
  s_i2i_entry_code_buffers :: address
  s_i2i_entry_code_buffers_size :: size_t
  s_core_spaces_size :: size_t
  s_shared_metaspace_static_top :: address
  s_relocation_delta :: intx
  s_requested_base_address :: address
  s_use_optimized_module_handling :: bool
  s_use_full_module_graph :: bool
  DumpSharedSpaces :: bool
  UseSharedSpaces :: bool
  shared_metaspace_base :: address
  shared_metaspace_top :: address
  regions :: "int \<Rightarrow> region option"

text \<open>
  Modelled from the spec: the initial values of the two compatibility gate flags,
  "process-wide booleans, initialized true". The initialisers of the static members
  are in metaspaceShared.cpp, which is not among the sources at hand.
\<close>

definition gates_initialized :: "('rs, 'vs, 'stats) MetaspaceShared \<Rightarrow> bool" where
  "gates_initialized st \<longleftrightarrow> s_use_optimized_module_handling st \<and> s_use_full_module_graph st"

subsection \<open>The functions defined in the header\<close>

text \<open>
  A function that returns nothing maps the state to the state after the call; a
  function that returns a value maps the state to the value and the state after the
  call.
\<close>

definition shared_rs :: "('rs, 'vs, 'stats) MetaspaceShared \<Rightarrow> 'rs" where
  "shared_rs st = s_shared_rs st"

definition set_shared_rs ::
  "'rs \<Rightarrow> ('rs, 'vs, 'stats) MetaspaceShared \<Rightarrow> ('rs, 'vs, 'stats) MetaspaceShared" where
  "set_shared_rs rs st = st\<lparr>s_shared_rs := rs\<rparr>"

text \<open>
  \<^verbatim>\<open>object_delta_u4\<close>. \<^verbatim>\<open>object_delta_uintx\<close> is declared in the header and defined
  elsewhere: it is the first argument. The comparison of the \<^verbatim>\<open>uintx\<close> with the
  integer constant is the comparison of their values, and the cast \<^verbatim>\<open>(u4)deltax\<close>
  keeps the low 32 bits.
\<close>

definition object_delta_u4 :: "(address \<Rightarrow> uintx) \<Rightarrow> address \<Rightarrow> vm_error + u4" where
  "object_delta_u4 object_delta_uintx obj =
     (let deltax = object_delta_uintx obj
      in if \<not> uint deltax \<le> MAX_SHARED_DELTA then Inl (guarantee_failed ''must be 32-bit offset'')
         else Inr (ucast deltax))"

definition set_archive_loading_failed ::
  "('rs, 'vs, 'stats) MetaspaceShared \<Rightarrow> ('rs, 'vs, 'stats) MetaspaceShared" where
  "set_archive_loading_failed st = st\<lparr>s_archive_loading_failed := True\<rparr>"

text \<open>
  \<^verbatim>\<open>is_in_output_space\<close>. \<^verbatim>\<open>ReservedSpace::contains\<close> belongs to another file: it
  is the first argument.
\<close>

definition is_in_output_space ::
  "('rs \<Rightarrow> address \<Rightarrow> bool) \<Rightarrow> address \<Rightarrow> ('rs, 'vs, 'stats) MetaspaceShared \<Rightarrow> vm_error + bool" where
  "is_in_output_space contains ptr st =
     (if \<not> DumpSharedSpaces st then Inl (assert_failed ''must be'')
      else Inr (contains (shared_rs st) ptr))"

text \<open>
  Modelled from the spec: \<^verbatim>\<open>MetaspaceObj::is_shared\<close>, which is not among the sources
  at hand, answers "is this address inside shared metaspace" by a read of the range
  of the shared metaspace.
\<close>

definition is_shared :: "address \<Rightarrow> ('rs, 'vs, 'stats) MetaspaceShared \<Rightarrow> bool" where
  "is_shared p st \<longleftrightarrow> shared_metaspace_base st \<le> p \<and> p < shared_metaspace_top st"

definition is_in_shared_metaspace ::
  "address \<Rightarrow> ('rs, 'vs, 'stats) MetaspaceShared \<Rightarrow> bool \<times> ('rs, 'vs, 'stats) MetaspaceShared" where
  "is_in_shared_metaspace p st = (is_shared p st, st)"

text \<open>
  Modelled from the spec: \<^verbatim>\<open>is_in_shared_region\<close> is declared in the header and
  defined elsewhere. It answers "is this address inside region i" by a read of the
  table of the mapped regions; an index without a mapped region gives false.
\<close>

definition is_in_shared_region ::
  "address \<Rightarrow> int \<Rightarrow> ('rs, 'vs, 'stats) MetaspaceShared \<Rightarrow> bool \<times> ('rs, 'vs, 'stats) MetaspaceShared" where
  "is_in_shared_region p idx st =
     (case regions st idx of
        None \<Rightarrow> (False, st)
      | Some r \<Rightarrow> (mapped_base r \<le> p \<and> unat (p - mapped_base r) < unat (byte_size r), st))"

definition remapped_readwrite ::
  "('rs, 'vs, 'stats) MetaspaceShared \<Rightarrow> bool \<times> ('rs, 'vs, 'stats) MetaspaceShared" where
  "remapped_readwrite st = (s_remapped_readwrite st, st)"

definition requested_base_address ::
  "('rs, 'vs, 'stats) MetaspaceShared \<Rightarrow> address \<times> ('rs, 'vs, 'stats) MetaspaceShared" where
  "requested_base_address st = (s_requested_base_address st, st)"

definition relocation_delta ::
  "('rs, 'vs, 'stats) MetaspaceShared \<Rightarrow> intx \<times> ('rs, 'vs, 'stats) MetaspaceShared" where
  "relocation_delta st = (s_relocation_delta st, st)"

definition use_optimized_module_handling ::
  "('rs, 'vs, 'stats) MetaspaceShared \<Rightarrow> bool \<times> ('rs, 'vs, 'stats) MetaspaceShared" where
  "use_optimized_module_handling st = (s_use_optimized_module_handling st, st)"

definition disable_optimized_module_handling ::
  "('rs, 'vs, 'stats) MetaspaceShared \<Rightarrow> ('rs, 'vs, 'stats) MetaspaceShared" where
  "disable_optimized_module_handling st = st\<lparr>s_use_optimized_module_handling := False\<rparr>"

definition disable_full_module_graph ::
  "('rs, 'vs, 'stats) MetaspaceShared \<Rightarrow> ('rs, 'vs, 'stats) MetaspaceShared" where
  "disable_full_module_graph st = st\<lparr>s_use_full_module_graph := False\<rparr>"

subsection \<open>Functions declared in the header and defined elsewhere\<close>

text \<open>
  Modelled from the spec: \<^verbatim>\<open>remap_shared_readonly_as_readwrite\<close> is declared in the
  header and defined elsewhere. The header says that it "simply returns true if sharing
  is not enabled or if the remapping has already been done by a prior call"; the
  spec says that it is a "one-time, globally-flagged operation", "remapping the
  read-only region as a private read-write mapping", and that it "only ever relaxes
  permissions". The first argument is the answer of the operating system to the
  remapping request: a refused request returns false and changes nothing.
\<close>

definition remap_shared_readonly_as_readwrite ::
  "bool \<Rightarrow> ('rs, 'vs, 'stats) MetaspaceShared \<Rightarrow> bool \<times> ('rs, 'vs, 'stats) MetaspaceShared" where
  "remap_shared_readonly_as_readwrite os_grants st =
     (if \<not> UseSharedSpaces st \<or> s_remapped_readwrite st then (True, st)
      else if \<not> os_grants then (False, st)
      else (True, st\<lparr>s_remapped_readwrite := True,
                      regions := (regions st)
                        (ro := map_option (\<lambda>r. r\<lparr>permission := read_write\<rparr>) (regions st ro))\<rparr>))"








subsection \<open>Sequences of calls on the process-wide state\<close>

text \<open>
  The functions of the header that write the state, together with reads of it, as
  calls; the state after one call and after a sequence of calls executed from left to
  right.
\<close>

datatype 'rs shared_call =
  Set_shared_rs 'rs
| Set_archive_loading_failed
| Is_in_shared_metaspace address
| Remapped_readwrite
| Requested_base_address
| Relocation_delta
| Use_optimized_module_handling
| Disable_optimized_module_handling
| Disable_full_module_graph

fun after_call ::
  "'rs shared_call \<Rightarrow> ('rs, 'vs, 'stats) MetaspaceShared \<Rightarrow> ('rs, 'vs, 'stats) MetaspaceShared" where
  "after_call (Set_shared_rs rs) st = set_shared_rs rs st"
| "after_call Set_archive_loading_failed st = set_archive_loading_failed st"
| "after_call (Is_in_shared_metaspace p) st = snd (is_in_shared_metaspace p st)"
| "after_call Remapped_readwrite st = snd (remapped_readwrite st)"
| "after_call Requested_base_address st = snd (requested_base_address st)"
| "after_call Relocation_delta st = snd (relocation_delta st)"
| "after_call Use_optimized_module_handling st = snd (use_optimized_module_handling st)"
| "after_call Disable_optimized_module_handling st = disable_optimized_module_handling st"
| "after_call Disable_full_module_graph st = disable_full_module_graph st"

fun after_calls ::
  "'rs shared_call list \<Rightarrow> ('rs, 'vs, 'stats) MetaspaceShared \<Rightarrow> ('rs, 'vs, 'stats) MetaspaceShared" where
  "after_calls [] st = st"
| "after_calls (c # cs) st = after_calls cs (after_call c st)"

subsection \<open>An example state\<close>

text \<open>
  The example of the spec after a load at the requested base address \<open>0x800000000\<close>:
  the regions \<open>mc\<close>, \<open>rw\<close>, \<open>ro\<close> and \<open>bm\<close> of 4096, 8192, 16384 and 512 bytes,
  mapped one after the other, so that \<open>ro\<close> starts at \<open>0x800003000\<close>. A reserved
  space is given here by its base and its size.
\<close>

definition example_regions :: "int \<Rightarrow> region option" where
  "example_regions =
     [mc \<mapsto> \<lparr>mapped_base = 0x800000000, byte_size = 4096, permission = read_execute\<rparr>,
      rw \<mapsto> \<lparr>mapped_base = 0x800001000, byte_size = 8192, permission = read_write\<rparr>,
      ro \<mapsto> \<lparr>mapped_base = 0x800003000, byte_size = 16384, permission = read_only\<rparr>,
      bm \<mapsto> \<lparr>mapped_base = 0x800007000, byte_size = 512, permission = read_only\<rparr>]"

definition example_state :: "(address \<times> size_t, unit, unit) MetaspaceShared" where
  "example_state =
     \<lparr>s_shared_rs = (0x800000000, 0x7200),
      s_shared_vs = (),
      s_symbol_rs = (0, 0),
      s_symbol_vs = (),
      s_max_alignment = 0,
      s_stats = (),
      s_has_error_classes = False,
      s_archive_loading_failed = False,
      s_remapped_readwrite = False,
      s_i2i_entry_code_buffers = 0,
      s_i2i_entry_code_buffers_size = 0,
      s_core_spaces_size = 0x7200,
      s_shared_metaspace_static_top = 0x800007200,
      s_relocation_delta = 0,
      s_requested_base_address = 0x800000000,
      s_use_optimized_module_handling = True,
      s_use_full_module_graph = True,
      DumpSharedSpaces = False,
      UseSharedSpaces = True,
      shared_metaspace_base = 0x800000000,
      shared_metaspace_top = 0x800007200,
      regions = example_regions\<rparr>"

definition example_contains :: "address \<times> size_t \<Rightarrow> address \<Rightarrow> bool" where
  "example_contains rs p \<longleftrightarrow> fst rs \<le> p \<and> unat (p - fst rs) < unat (snd rs)"

section \<open>Properties of ZSafeDelete\<close>

lemma delete_each_deleted:
  "delete_each a xs s = s\<lparr>deleted := deleted s @ map (delete_of a) xs\<rparr>"
  by (induction xs arbitrary: s) (simp_all add: immediate_delete_def delete_of_def)

lemma disable_deferred_delete_last:
  "enabled s = 1 \<Longrightarrow>
   disable_deferred_delete a s =
     Inr (s\<lparr>enabled := 0, deferred := [], deleted := deleted s @ map (delete_of a) (deferred s)\<rparr>)"
  by (simp add: disable_deferred_delete_def delete_each_deleted)

lemma word_dec_eq_0: "(x :: uint64_t) - 1 = 0 \<longleftrightarrow> x = 1"
  by auto

lemma disable_deferred_delete_more:
  "1 < enabled s \<Longrightarrow> disable_deferred_delete a s = Inr (s\<lparr>enabled := enabled s - 1\<rparr>)"
proof -
  assume h: "1 < enabled s"
  then have "0 < enabled s" and "enabled s - 1 \<noteq> 0"
    by (auto simp: word_dec_eq_0 intro: le_less_trans [of 0 1])
  then show ?thesis
    by (simp add: disable_deferred_delete_def)
qed

lemma disable_deferred_delete_zero:
  "enabled s = 0 \<Longrightarrow> disable_deferred_delete a s = Inl (assert_failed ''Invalid state'')"
  by (simp add: disable_deferred_delete_def)

text \<open>
  C1. An item passed to \<^verbatim>\<open>operator()\<close> is deferred (appended to the deferred list, with
  \<^verbatim>\<open>deferred_delete\<close> returning true) exactly when the counter is positive at that
  moment, and is deleted at once otherwise. When \<^verbatim>\<open>disable_deferred_delete\<close>
  decrements the counter to exactly zero, every deferred item is deleted and the list
  becomes empty; a decrement that leaves the counter positive deletes nothing.
\<close>

theorem operator_defers_iff_enabled:
  "(fst (deferred_delete item s) \<longleftrightarrow> 0 < enabled s) \<and>
   (0 < enabled s \<longrightarrow>
      operator_call a item s = s\<lparr>deferred := deferred s @ [item]\<rparr>) \<and>
   (\<not> 0 < enabled s \<longrightarrow>
      operator_call a item s = s\<lparr>deleted := deleted s @ [delete_of a item]\<rparr>) \<and>
   (enabled s = 1 \<longrightarrow>
      disable_deferred_delete a s =
        Inr (s\<lparr>enabled := 0, deferred := [],
               deleted := deleted s @ map (delete_of a) (deferred s)\<rparr>)) \<and>
   (1 < enabled s \<longrightarrow>
      0 < enabled s - 1 \<and>
      disable_deferred_delete a s = Inr (s\<lparr>enabled := enabled s - 1\<rparr>))"
proof (intro conjI impI)
  show "fst (deferred_delete item s) \<longleftrightarrow> 0 < enabled s"
    by (simp add: deferred_delete_def)
  show "operator_call a item s = s\<lparr>deferred := deferred s @ [item]\<rparr>" if "0 < enabled s"
    using that by (simp add: operator_call_def deferred_delete_def)
  show "operator_call a item s = s\<lparr>deleted := deleted s @ [delete_of a item]\<rparr>"
    if "\<not> 0 < enabled s"
    using that
    by (simp add: operator_call_def deferred_delete_def immediate_delete_def delete_of_def)
  show "disable_deferred_delete a s =
        Inr (s\<lparr>enabled := 0, deferred := [],
               deleted := deleted s @ map (delete_of a) (deferred s)\<rparr>)" if "enabled s = 1"
    using that by (rule disable_deferred_delete_last)
  show "0 < enabled s - 1" if "1 < enabled s"
  proof -
    from that have "enabled s - 1 \<noteq> 0"
      by (auto simp: word_dec_eq_0)
    then show ?thesis
      by (simp only: word_neq_0_conv)
  qed
  show "disable_deferred_delete a s = Inr (s\<lparr>enabled := enabled s - 1\<rparr>)" if "1 < enabled s"
    using that by (rule disable_deferred_delete_more)
qed

theorem operator_defers_iff_enabled_witness:
  "0 < (2::uint64_t) \<and> \<not> 0 < (0::uint64_t) \<and> 1 < (2::uint64_t) \<and>
   fst (deferred_delete (7::nat) \<lparr>enabled = 2, deferred = [3], deleted = []\<rparr>) \<and>
   operator_call False (7::nat) \<lparr>enabled = 2, deferred = [3], deleted = []\<rparr>
     = \<lparr>enabled = 2, deferred = [3, 7], deleted = []\<rparr> \<and>
   operator_call False (7::nat) \<lparr>enabled = 0, deferred = [], deleted = []\<rparr>
     = \<lparr>enabled = 0, deferred = [], deleted = [delete_scalar 7]\<rparr> \<and>
   disable_deferred_delete False \<lparr>enabled = 1, deferred = [3, 7::nat], deleted = []\<rparr>
     = Inr \<lparr>enabled = 0, deferred = [], deleted = [delete_scalar 3, delete_scalar 7]\<rparr> \<and>
   disable_deferred_delete False \<lparr>enabled = 2, deferred = [3, 7::nat], deleted = []\<rparr>
     = Inr \<lparr>enabled = 1, deferred = [3, 7], deleted = []\<rparr>"
  using operator_defers_iff_enabled
          [of "7::nat" "\<lparr>enabled = 2, deferred = [3], deleted = []\<rparr>" False]
        operator_defers_iff_enabled
          [of "7::nat" "\<lparr>enabled = 0, deferred = [], deleted = []\<rparr>" False]
        operator_defers_iff_enabled
          [of "7::nat" "\<lparr>enabled = 1, deferred = [3, 7], deleted = []\<rparr>" False]
        operator_defers_iff_enabled
          [of "7::nat" "\<lparr>enabled = 2, deferred = [3, 7], deleted = []\<rparr>" False]
  by (simp add: delete_of_def)

subsection \<open>The counter along a sequence of calls\<close>

text \<open>
  The counter has 64 bits, so a sequence of fewer than \<open>2 ^ 64\<close> calls cannot make it
  wrap around. The sequences below are bounded so; no process executes more.
\<close>

lemma disable_deferred_delete_enabled:
  "0 < enabled s \<Longrightarrow>
   \<exists>s'. disable_deferred_delete a s = Inr s' \<and> enabled s' = enabled s - 1"
  by (simp add: disable_deferred_delete_def delete_each_deleted Let_def split: prod.splits)

lemma unat_enable_deferred_delete:
  "unat (enabled s) + 1 < 2 ^ 64 \<Longrightarrow>
   unat (enabled (enable_deferred_delete s)) = Suc (unat (enabled s))"
  by (simp add: enable_deferred_delete_def unat_word_ariths)

lemma unat_decrement: "0 < (x::uint64_t) \<Longrightarrow> unat (x - 1) = unat x - 1"
  by (simp add: unat_minus_one word_neq_0_conv)

lemma enabled_operator_call: "enabled (operator_call a item s) = enabled s"
  by (simp add: operator_call_def deferred_delete_def immediate_delete_def)

lemma enabled_deferred_delete: "enabled (snd (deferred_delete item s)) = enabled s"
  by (simp add: deferred_delete_def)

lemma run_balanced:
  "balanced (unat (enabled s)) cs \<Longrightarrow> unat (enabled s) + length cs < 2 ^ 64 \<Longrightarrow>
   \<exists>s'. run a cs s = Inr s' \<and> unat (enabled s') = unmatched (unat (enabled s)) cs"
proof (induction cs arbitrary: s)
  case Nil
  then show ?case by simp
next
  case (Cons c cs)
  show ?case
  proof (cases c)
    case Enable
    with Cons.prems have r: "balanced (Suc (unat (enabled s))) cs"
      and b: "Suc (unat (enabled s)) + length cs < 2 ^ 64" by simp_all
    from b have "unat (enabled s) + 1 < 2 ^ 64"
      by simp
    then have "unat (enabled (enable_deferred_delete s)) = Suc (unat (enabled s))"
      by (rule unat_enable_deferred_delete)
    with r b Cons.IH [of "enable_deferred_delete s"] Enable show ?thesis by simp
  next
    case Disable
    with Cons.prems have p: "0 < unat (enabled s)"
      and r: "balanced (unat (enabled s) - 1) cs"
      and b: "unat (enabled s) - 1 + length cs < 2 ^ 64" by simp_all
    from p have q: "0 < enabled s" by (simp add: word_less_nat_alt)
    then obtain s' where s': "disable_deferred_delete a s = Inr s'" "enabled s' = enabled s - 1"
      using disable_deferred_delete_enabled by blast
    with q have "unat (enabled s') = unat (enabled s) - 1" by (simp add: unat_decrement)
    with r b Cons.IH [of s'] s' Disable show ?thesis by simp
  next
    case (Delete x)
    with Cons.prems Cons.IH [of "operator_call a x s"] show ?thesis
      by (simp add: enabled_operator_call)
  next
    case (Deferred_delete x)
    with Cons.prems Cons.IH [of "snd (deferred_delete x s)"] show ?thesis
      by (simp add: enabled_deferred_delete)
  qed
qed

text \<open>
  C8. \<^verbatim>\<open>disable_deferred_delete\<close> asserts that the counter is positive: called with
  a counter of zero it fails the assertion, and called with a positive counter it
  returns with the counter one lower, so the counter does not go below zero. Under
  balanced usage, where every disable is matched by an earlier unmatched enable, the
  assertion never fails: every balanced sequence of fewer than \<open>2 ^ 64\<close> calls on a
  new object runs to its end, and the counter then is the number of unmatched enables.
\<close>

theorem disable_asserts_enabled:
  "(enabled s = 0 \<longrightarrow> disable_deferred_delete a s = Inl (assert_failed ''Invalid state'')) \<and>
   (0 < enabled s \<longrightarrow>
      (\<exists>s'. disable_deferred_delete a s = Inr s' \<and> unat (enabled s') + 1 = unat (enabled s))) \<and>
   (balanced 0 cs \<and> length cs < 2 ^ 64 \<longrightarrow>
      (\<exists>s'. run a cs ZSafeDeleteImpl = Inr s' \<and> unat (enabled s') = unmatched 0 cs))"
proof (intro conjI impI)
  show "disable_deferred_delete a s = Inl (assert_failed ''Invalid state'')" if "enabled s = 0"
    using that by (rule disable_deferred_delete_zero)
  show "\<exists>s'. disable_deferred_delete a s = Inr s' \<and> unat (enabled s') + 1 = unat (enabled s)"
    if pos: "0 < enabled s"
  proof -
    from pos obtain s' where s': "disable_deferred_delete a s = Inr s'" "enabled s' = enabled s - 1"
      using disable_deferred_delete_enabled by blast
    from pos have "0 < unat (enabled s)" by (simp add: word_less_nat_alt)
    with pos s' have "unat (enabled s') + 1 = unat (enabled s)" by (simp add: unat_decrement)
    with s' show ?thesis by blast
  qed
  show "\<exists>s'. run a cs ZSafeDeleteImpl = Inr s' \<and> unat (enabled s') = unmatched 0 cs"
    if "balanced 0 cs \<and> length cs < 2 ^ 64"
    using that run_balanced [of "ZSafeDeleteImpl" cs a] by (simp add: ZSafeDeleteImpl_def)
qed

theorem disable_asserts_enabled_witness:
  "enabled (ZSafeDeleteImpl :: nat ZSafeDeleteImpl) = 0 \<and>
   disable_deferred_delete False (ZSafeDeleteImpl :: nat ZSafeDeleteImpl)
     = Inl (assert_failed ''Invalid state'') \<and>
   0 < enabled \<lparr>enabled = 2, deferred = [3::nat], deleted = []\<rparr> \<and>
   (\<exists>s'. disable_deferred_delete False \<lparr>enabled = 2, deferred = [3::nat], deleted = []\<rparr> = Inr s' \<and>
         unat (enabled s') + 1 = 2) \<and>
   balanced 0 [Enable, Delete (3::nat), Enable, Disable, Disable] \<and>
   length [Enable, Delete (3::nat), Enable, Disable, Disable] < 2 ^ 64 \<and>
   (\<exists>s'. run False [Enable, Delete (3::nat), Enable, Disable, Disable] ZSafeDeleteImpl = Inr s' \<and>
         unat (enabled s') = 0)"
proof -
  let ?s = "\<lparr>enabled = 2, deferred = [3::nat], deleted = []\<rparr>"
  let ?cs = "[Enable, Delete (3::nat), Enable, Disable, Disable]"
  have z: "enabled (ZSafeDeleteImpl :: nat ZSafeDeleteImpl) = 0"
    by (simp add: ZSafeDeleteImpl_def)
  have p: "0 < enabled ?s" by simp
  have b: "balanced 0 ?cs \<and> length ?cs < 2 ^ 64" by simp
  from z disable_asserts_enabled [of ZSafeDeleteImpl False ?cs]
  have 1: "disable_deferred_delete False (ZSafeDeleteImpl :: nat ZSafeDeleteImpl)
     = Inl (assert_failed ''Invalid state'')" by blast
  from p disable_asserts_enabled [of ?s False ?cs]
  have 2: "\<exists>s'. disable_deferred_delete False ?s = Inr s' \<and> unat (enabled s') + 1 = 2"
    by simp
  from b disable_asserts_enabled [of ?s False ?cs]
  have 3: "\<exists>s'. run False ?cs ZSafeDeleteImpl = Inr s' \<and> unat (enabled s') = 0"
    by simp
  from z p b 1 2 3 show ?thesis by blast
qed

subsection \<open>The invariant\<close>

lemma deferred_invariant_new: "deferred_invariant ZSafeDeleteImpl"
  by (simp add: deferred_invariant_def ZSafeDeleteImpl_def)

lemma enabled_new: "unat (enabled ZSafeDeleteImpl) = 0"
  by (simp add: ZSafeDeleteImpl_def)

lemma deferred_invariant_enable:
  "unat (enabled s) + 1 < 2 ^ 64 \<Longrightarrow> deferred_invariant (enable_deferred_delete s)"
proof -
  assume "unat (enabled s) + 1 < 2 ^ 64"
  then have "unat (enabled (enable_deferred_delete s)) = Suc (unat (enabled s))"
    by (rule unat_enable_deferred_delete)
  then have "enabled (enable_deferred_delete s) \<noteq> 0"
    by auto
  then show ?thesis
    by (simp add: deferred_invariant_def)
qed

lemma deferred_invariant_deferred_delete:
  "deferred_invariant s \<Longrightarrow> deferred_invariant (snd (deferred_delete item s))"
  by (auto simp: deferred_invariant_def deferred_delete_def)

lemma deferred_invariant_operator_call:
  "deferred_invariant s \<Longrightarrow> deferred_invariant (operator_call a item s)"
  by (auto simp: deferred_invariant_def operator_call_def deferred_delete_def
      immediate_delete_def)

lemma deferred_invariant_disable:
  "disable_deferred_delete a s = Inr s' \<Longrightarrow> deferred_invariant s'"
  by (auto simp: deferred_invariant_def disable_deferred_delete_def delete_each_deleted
      Let_def split: if_splits)

lemma enabled_disable_le:
  "disable_deferred_delete a s = Inr s' \<Longrightarrow> unat (enabled s') \<le> unat (enabled s)"
proof -
  assume r: "disable_deferred_delete a s = Inr s'"
  then have pos: "0 < enabled s"
    by (auto simp: disable_deferred_delete_def split: if_splits)
  then obtain t where "disable_deferred_delete a s = Inr t" "enabled t = enabled s - 1"
    using disable_deferred_delete_enabled by blast
  with r have "enabled s' = enabled s - 1" by simp
  with pos show ?thesis by (simp add: unat_decrement)
qed

lemma run_then_enable:
  "run a cs s = Inr s' \<Longrightarrow> run a (cs @ [Enable]) s = Inr (enable_deferred_delete s')"
  by (induction cs arbitrary: s) (auto split: sum.splits)

lemma run_invariant:
  "run a cs s = Inr s' \<Longrightarrow> deferred_invariant s \<Longrightarrow> unat (enabled s) + length cs < 2 ^ 64 \<Longrightarrow>
   deferred_invariant s'"
proof (induction cs arbitrary: s)
  case Nil
  then show ?case by simp
next
  case (Cons c cs)
  show ?case
  proof (cases c)
    case Enable
    from Cons.prems have b: "unat (enabled s) + 1 < 2 ^ 64" by simp
    then have e: "unat (enabled (enable_deferred_delete s)) = Suc (unat (enabled s))"
      by (rule unat_enable_deferred_delete)
    from b have "deferred_invariant (enable_deferred_delete s)"
      by (rule deferred_invariant_enable)
    with e Cons.prems Cons.IH [of "enable_deferred_delete s"] Enable show ?thesis by simp
  next
    case Disable
    with Cons.prems obtain t where t: "disable_deferred_delete a s = Inr t" "run a cs t = Inr s'"
      by (auto split: sum.splits)
    from t have "deferred_invariant t" and "unat (enabled t) \<le> unat (enabled s)"
      by (auto dest: deferred_invariant_disable enabled_disable_le)
    with t Cons.prems Cons.IH [of t] show ?thesis by simp
  next
    case (Delete x)
    with Cons.prems Cons.IH [of "operator_call a x s"] show ?thesis
      by (simp add: enabled_operator_call deferred_invariant_operator_call)
  next
    case (Deferred_delete x)
    with Cons.prems Cons.IH [of "snd (deferred_delete x s)"] show ?thesis
      by (simp add: enabled_deferred_delete deferred_invariant_deferred_delete)
  qed
qed

text \<open>
  C9. Whenever the counter is zero, the deferred list is empty. A new object satisfies
  this invariant, and it holds after every sequence of fewer than \<open>2 ^ 64\<close> calls on a
  new object. Each operation preserves it: \<^verbatim>\<open>deferred_delete\<close>, \<^verbatim>\<open>operator()\<close> and
  \<^verbatim>\<open>disable_deferred_delete\<close> in every state, and \<^verbatim>\<open>enable_deferred_delete\<close> in
  every state whose counter is below its maximum, as it is in every state reached by
  such a sequence. So no deferred item outlives the last outstanding enable: after a
  balanced sequence that leaves no enable unmatched, the deferred list is empty.
\<close>

theorem deferred_invariant_preserved:
  "deferred_invariant (ZSafeDeleteImpl :: 'a ZSafeDeleteImpl) \<and>
   (deferred_invariant s \<and> unat (enabled s) + 1 < 2 ^ 64 \<longrightarrow>
      deferred_invariant (enable_deferred_delete s)) \<and>
   (deferred_invariant s \<longrightarrow> deferred_invariant (snd (deferred_delete item s))) \<and>
   (deferred_invariant s \<longrightarrow> deferred_invariant (operator_call a item s)) \<and>
   (deferred_invariant s \<longrightarrow>
      (\<forall>s'. disable_deferred_delete a s = Inr s' \<longrightarrow> deferred_invariant s')) \<and>
   (length cs < 2 ^ 64 \<longrightarrow>
      (\<forall>s'. run a cs ZSafeDeleteImpl = Inr s' \<longrightarrow>
         deferred_invariant s' \<and>
         (length cs + 1 < 2 ^ 64 \<longrightarrow> deferred_invariant (enable_deferred_delete s')))) \<and>
   (balanced 0 cs \<and> length cs < 2 ^ 64 \<and> unmatched 0 cs = 0 \<longrightarrow>
      (\<exists>s'. run a cs ZSafeDeleteImpl = Inr s' \<and> enabled s' = 0 \<and> deferred s' = []))"
proof (intro conjI impI allI)
  show "deferred_invariant (ZSafeDeleteImpl :: 'a ZSafeDeleteImpl)"
    by (rule deferred_invariant_new)
  show "deferred_invariant (enable_deferred_delete s)"
    if "deferred_invariant s \<and> unat (enabled s) + 1 < 2 ^ 64"
    using that by (simp add: deferred_invariant_enable)
  show "deferred_invariant (snd (deferred_delete item s))" if "deferred_invariant s"
    using that by (rule deferred_invariant_deferred_delete)
  show "deferred_invariant (operator_call a item s)" if "deferred_invariant s"
    using that by (rule deferred_invariant_operator_call)
  show "deferred_invariant s'"
    if "deferred_invariant s" and "disable_deferred_delete a s = Inr s'" for s'
    using that(2) by (rule deferred_invariant_disable)
  show "deferred_invariant s'"
    if "length cs < 2 ^ 64" and "run a cs ZSafeDeleteImpl = Inr s'" for s'
    using that by (auto intro: run_invariant [OF _ deferred_invariant_new] simp: enabled_new)
  show "deferred_invariant (enable_deferred_delete s')"
    if len: "length cs < 2 ^ 64" and r: "run a cs ZSafeDeleteImpl = Inr s'"
      and len': "length cs + 1 < 2 ^ 64" for s'
  proof -
    have "run a (cs @ [Enable]) ZSafeDeleteImpl = Inr (enable_deferred_delete s')"
      using r by (rule run_then_enable)
    with len' show ?thesis
      by (auto intro: run_invariant [OF _ deferred_invariant_new] simp: enabled_new)
  qed
  show "\<exists>s'. run a cs ZSafeDeleteImpl = Inr s' \<and> enabled s' = 0 \<and> deferred s' = []"
    if h: "balanced 0 cs \<and> length cs < 2 ^ 64 \<and> unmatched 0 cs = 0"
  proof -
    from h have "\<exists>s'. run a cs ZSafeDeleteImpl = Inr s' \<and> unat (enabled s') = 0"
      using run_balanced [of ZSafeDeleteImpl cs a] by (simp add: enabled_new)
    then obtain s' where s': "run a cs ZSafeDeleteImpl = Inr s'" "unat (enabled s') = 0"
      by blast
    from h s' have "deferred_invariant s'"
      by (auto intro: run_invariant [OF _ deferred_invariant_new] simp: enabled_new)
    with s' have "enabled s' = 0 \<and> deferred s' = []"
      by (simp add: deferred_invariant_def unat_eq_0)
    with s' show ?thesis by blast
  qed
qed

theorem deferred_invariant_preserved_witness:
  "deferred_invariant \<lparr>enabled = 1, deferred = [3::nat], deleted = []\<rparr> \<and>
   unat (enabled \<lparr>enabled = 1, deferred = [3::nat], deleted = []\<rparr>) + 1 < 2 ^ 64 \<and>
   deferred_invariant (enable_deferred_delete \<lparr>enabled = 1, deferred = [3::nat], deleted = []\<rparr>) \<and>
   deferred_invariant (snd (deferred_delete 7 \<lparr>enabled = 1, deferred = [3::nat], deleted = []\<rparr>)) \<and>
   deferred_invariant (operator_call False 7 \<lparr>enabled = 1, deferred = [3::nat], deleted = []\<rparr>) \<and>
   disable_deferred_delete False \<lparr>enabled = 1, deferred = [3::nat], deleted = []\<rparr>
     = Inr \<lparr>enabled = 0, deferred = [], deleted = [delete_scalar 3]\<rparr> \<and>
   deferred_invariant \<lparr>enabled = 0, deferred = [], deleted = [delete_scalar (3::nat)]\<rparr> \<and>
   length [Enable, Delete (3::nat), Disable] + 1 < 2 ^ 64 \<and>
   run False [Enable, Delete (3::nat), Disable] ZSafeDeleteImpl
     = Inr \<lparr>enabled = 0, deferred = [], deleted = [delete_scalar 3]\<rparr> \<and>
   deferred_invariant
     (enable_deferred_delete \<lparr>enabled = 0, deferred = [], deleted = [delete_scalar (3::nat)]\<rparr>) \<and>
   balanced 0 [Enable, Delete (3::nat), Disable] \<and>
   unmatched 0 [Enable, Delete (3::nat), Disable] = 0 \<and>
   (\<exists>s'. run False [Enable, Delete (3::nat), Disable] ZSafeDeleteImpl = Inr s' \<and>
         enabled s' = 0 \<and> deferred s' = [])"
proof -
  let ?s = "\<lparr>enabled = 1, deferred = [3::nat], deleted = []\<rparr>"
  let ?t = "\<lparr>enabled = 0, deferred = [], deleted = [delete_scalar (3::nat)]\<rparr>"
  let ?cs = "[Enable, Delete (3::nat), Disable]"
  have inv: "deferred_invariant ?s"
    by (simp add: deferred_invariant_def)
  have bound: "unat (enabled ?s) + 1 < 2 ^ 64"
    by simp
  have dis: "disable_deferred_delete False ?s = Inr ?t"
    by (simp add: disable_deferred_delete_last delete_of_def)
  have len: "length ?cs < 2 ^ 64" "length ?cs + 1 < 2 ^ 64"
    by simp_all
  have run: "run False ?cs ZSafeDeleteImpl = Inr ?t"
    by (simp add: ZSafeDeleteImpl_def enable_deferred_delete_def operator_call_def
        deferred_delete_def disable_deferred_delete_last delete_of_def)
  have bal: "balanced 0 ?cs" "unmatched 0 ?cs = 0"
    by simp_all
  note inst = deferred_invariant_preserved [of ?s 7 False ?cs]
  from inst inv bound have 1: "deferred_invariant (enable_deferred_delete ?s)" by blast
  from inst inv have 2: "deferred_invariant (snd (deferred_delete 7 ?s))" by blast
  from inst inv have 3: "deferred_invariant (operator_call False 7 ?s)" by blast
  from inst inv dis have 4: "deferred_invariant ?t" by blast
  from inst len run have 5: "deferred_invariant (enable_deferred_delete ?t)" by blast
  from inst bal len have 6: "\<exists>s'. run False ?cs ZSafeDeleteImpl = Inr s' \<and>
         enabled s' = 0 \<and> deferred s' = []" by blast
  from inv bound dis len run bal 1 2 3 4 5 6 show ?thesis by blast
qed

section \<open>Properties of MetaspaceShared\<close>

subsection \<open>The region catalogue\<close>

text \<open>
  C2. The region indices are, in order, \<open>mc\<close>, \<open>rw\<close>, \<open>ro\<close>, \<open>bm\<close>, then the closed
  heap regions, then the open heap regions: together they are the indices from 0 to
  \<open>n_regions - 1\<close>, there are two closed and two open heap regions (their limits),
  and \<open>n_regions\<close> is 8. All of them are constants: no state, dump or load enters.
\<close>

theorem region_catalogue_order:
  "[mc, rw, ro, bm]
     @ [first_closed_archive_heap_region .. last_closed_archive_heap_region]
     @ [first_open_archive_heap_region .. last_open_archive_heap_region]
     = [0 .. n_regions - 1] \<and>
   [mc, rw, ro, bm] = [0, 1, 2, 3] \<and>
   [first_closed_archive_heap_region .. last_closed_archive_heap_region] = [4, 5] \<and>
   [first_open_archive_heap_region .. last_open_archive_heap_region] = [6, 7] \<and>
   max_closed_archive_heap_region = 2 \<and>
   int (length [first_closed_archive_heap_region .. last_closed_archive_heap_region])
     = max_closed_archive_heap_region \<and>
   max_open_archive_heap_region = 2 \<and>
   int (length [first_open_archive_heap_region .. last_open_archive_heap_region])
     = max_open_archive_heap_region \<and>
   num_non_heap_spaces = 4 \<and>
   last_valid_region = 7 \<and>
   n_regions = 8"
  by (simp add: mc_def rw_def ro_def bm_def num_non_heap_spaces_def
      first_closed_archive_heap_region_def max_closed_archive_heap_region_def
      last_closed_archive_heap_region_def first_open_archive_heap_region_def
      max_open_archive_heap_region_def last_open_archive_heap_region_def
      last_valid_region_def n_regions_def upto_rec1)

subsection \<open>Offsets of 32 bits\<close>

lemma ucast_u4_small:
  fixes d :: uintx
  assumes "uint d \<le> 0x7FFFFFFF"
  shows "uint (ucast d :: u4) = uint d"
proof -
  from assms have "uint d < 2 ^ 32" by simp
  then have "take_bit 32 (uint d) = uint d"
    by (simp add: take_bit_int_eq_self)
  then show ?thesis
    by (simp add: unsigned_ucast_eq)
qed

text \<open>
  C3. Whatever \<^verbatim>\<open>object_delta_uintx\<close> computes: when the delta of the object is at
  most \<open>MAX_SHARED_DELTA\<close>, that is \<open>0x7FFFFFFF\<close>, \<^verbatim>\<open>object_delta_u4\<close> returns it
  as a \<^verbatim>\<open>u4\<close> of the same value; when the delta is larger, the guarantee fails and
  nothing is returned. So every offset that is returned is at most \<open>0x7FFFFFFF\<close>.
\<close>

theorem object_delta_u4_bound:
  "MAX_SHARED_DELTA = 0x7FFFFFFF \<and>
   (uint (delta obj) \<le> MAX_SHARED_DELTA \<longrightarrow>
      object_delta_u4 delta obj = Inr (ucast (delta obj)) \<and>
      uint (ucast (delta obj) :: u4) = uint (delta obj)) \<and>
   (MAX_SHARED_DELTA < uint (delta obj) \<longrightarrow>
      object_delta_u4 delta obj = Inl (guarantee_failed ''must be 32-bit offset'')) \<and>
   (\<forall>r. object_delta_u4 delta obj = Inr r \<longrightarrow>
      uint r = uint (delta obj) \<and> uint r \<le> MAX_SHARED_DELTA)"
proof (intro conjI impI allI)
  show "MAX_SHARED_DELTA = 0x7FFFFFFF"
    by (simp add: MAX_SHARED_DELTA_def)
  show "object_delta_u4 delta obj = Inr (ucast (delta obj))"
    if "uint (delta obj) \<le> MAX_SHARED_DELTA"
    using that by (simp add: object_delta_u4_def Let_def)
  show "uint (ucast (delta obj) :: u4) = uint (delta obj)"
    if "uint (delta obj) \<le> MAX_SHARED_DELTA"
    using that by (simp add: MAX_SHARED_DELTA_def ucast_u4_small)
  show "object_delta_u4 delta obj = Inl (guarantee_failed ''must be 32-bit offset'')"
    if "MAX_SHARED_DELTA < uint (delta obj)"
    using that by (simp add: object_delta_u4_def Let_def)
  show "uint r = uint (delta obj)" if "object_delta_u4 delta obj = Inr r" for r
    using that
    by (auto simp: object_delta_u4_def MAX_SHARED_DELTA_def ucast_u4_small Let_def
        split: if_splits)
  show "uint r \<le> MAX_SHARED_DELTA" if "object_delta_u4 delta obj = Inr r" for r
    using that
    by (auto simp: object_delta_u4_def MAX_SHARED_DELTA_def ucast_u4_small Let_def
        split: if_splits)
qed

theorem object_delta_u4_bound_witness:
  "uint ((\<lambda>obj. obj - 0x800000000) 0x800003000 :: uintx) \<le> MAX_SHARED_DELTA \<and>
   object_delta_u4 (\<lambda>obj. obj - 0x800000000) 0x800003000 = Inr 0x3000 \<and>
   MAX_SHARED_DELTA < uint ((\<lambda>obj. obj - 0x800000000) 0x880000000 :: uintx) \<and>
   object_delta_u4 (\<lambda>obj. obj - 0x800000000) 0x880000000
     = Inl (guarantee_failed ''must be 32-bit offset'')"
proof -
  have small: "uint ((\<lambda>obj. obj - 0x800000000) 0x800003000 :: uintx) \<le> MAX_SHARED_DELTA"
    by (simp add: MAX_SHARED_DELTA_def)
  have large: "MAX_SHARED_DELTA < uint ((\<lambda>obj. obj - 0x800000000) 0x880000000 :: uintx)"
    by (simp add: MAX_SHARED_DELTA_def)
  from small object_delta_u4_bound [of "\<lambda>obj. obj - 0x800000000" "0x800003000"]
  have 1: "object_delta_u4 (\<lambda>obj. obj - 0x800000000) 0x800003000 = Inr 0x3000"
    by simp
  from large object_delta_u4_bound [of "\<lambda>obj. obj - 0x800000000" "0x880000000"]
  have 2: "object_delta_u4 (\<lambda>obj. obj - 0x800000000) 0x880000000
     = Inl (guarantee_failed ''must be 32-bit offset'')"
    by blast
  from small large 1 2 show ?thesis by blast
qed

subsection \<open>The result of the loader\<close>







subsection \<open>The compatibility gate flags\<close>

lemma after_call_optimized:
  "s_use_optimized_module_handling (after_call c st) \<longleftrightarrow>
   s_use_optimized_module_handling st \<and> c \<noteq> Disable_optimized_module_handling"
  by (cases c)
    (simp_all add: set_shared_rs_def set_archive_loading_failed_def is_in_shared_metaspace_def
      remapped_readwrite_def requested_base_address_def relocation_delta_def
      use_optimized_module_handling_def disable_optimized_module_handling_def
      disable_full_module_graph_def)

lemma after_call_full:
  "s_use_full_module_graph (after_call c st) \<longleftrightarrow>
   s_use_full_module_graph st \<and> c \<noteq> Disable_full_module_graph"
  by (cases c)
    (simp_all add: set_shared_rs_def set_archive_loading_failed_def is_in_shared_metaspace_def
      remapped_readwrite_def requested_base_address_def relocation_delta_def
      use_optimized_module_handling_def disable_optimized_module_handling_def
      disable_full_module_graph_def)

lemma after_calls_optimized:
  "s_use_optimized_module_handling (after_calls cs st) \<longleftrightarrow>
   s_use_optimized_module_handling st \<and> Disable_optimized_module_handling \<notin> set cs"
  by (induction cs arbitrary: st) (auto simp: after_call_optimized)

lemma after_calls_full:
  "s_use_full_module_graph (after_calls cs st) \<longleftrightarrow>
   s_use_full_module_graph st \<and> Disable_full_module_graph \<notin> set cs"
  by (induction cs arbitrary: st) (auto simp: after_call_full)

text \<open>
  C5. The two gate flags start enabled. Every call leaves a flag as it is or sets it
  to false, and the disable calls set their flag to false. In every sequence of
  calls, a flag that is false at some point is false after any further calls; from
  the initial state a flag is true exactly as long as its disable call has not
  occurred.
\<close>

theorem gate_flags_monotone:
  "(gates_initialized st \<longrightarrow>
      fst (use_optimized_module_handling st) \<and> s_use_full_module_graph st) \<and>
   (s_use_optimized_module_handling (after_call c st) = s_use_optimized_module_handling st \<or>
      s_use_optimized_module_handling (after_call c st) = False) \<and>
   (s_use_full_module_graph (after_call c st) = s_use_full_module_graph st \<or>
      s_use_full_module_graph (after_call c st) = False) \<and>
   s_use_optimized_module_handling (disable_optimized_module_handling st) = False \<and>
   s_use_full_module_graph (disable_full_module_graph st) = False \<and>
   (\<not> s_use_optimized_module_handling (after_calls cs st) \<longrightarrow>
      \<not> s_use_optimized_module_handling (after_calls (cs @ cs') st)) \<and>
   (\<not> s_use_full_module_graph (after_calls cs st) \<longrightarrow>
      \<not> s_use_full_module_graph (after_calls (cs @ cs') st)) \<and>
   (gates_initialized st \<longrightarrow>
      (s_use_optimized_module_handling (after_calls cs st) \<longleftrightarrow>
         Disable_optimized_module_handling \<notin> set cs) \<and>
      (s_use_full_module_graph (after_calls cs st) \<longleftrightarrow>
         Disable_full_module_graph \<notin> set cs))"
proof (intro conjI impI)
  show "fst (use_optimized_module_handling st)" if "gates_initialized st"
    using that by (simp add: gates_initialized_def use_optimized_module_handling_def)
  show "s_use_full_module_graph st" if "gates_initialized st"
    using that by (simp add: gates_initialized_def)
  show "s_use_optimized_module_handling (after_call c st) = s_use_optimized_module_handling st \<or>
      s_use_optimized_module_handling (after_call c st) = False"
    by (auto simp: after_call_optimized)
  show "s_use_full_module_graph (after_call c st) = s_use_full_module_graph st \<or>
      s_use_full_module_graph (after_call c st) = False"
    by (auto simp: after_call_full)
  show "s_use_optimized_module_handling (disable_optimized_module_handling st) = False"
    by (simp add: disable_optimized_module_handling_def)
  show "s_use_full_module_graph (disable_full_module_graph st) = False"
    by (simp add: disable_full_module_graph_def)
  show "\<not> s_use_optimized_module_handling (after_calls (cs @ cs') st)"
    if "\<not> s_use_optimized_module_handling (after_calls cs st)"
    using that by (auto simp: after_calls_optimized)
  show "\<not> s_use_full_module_graph (after_calls (cs @ cs') st)"
    if "\<not> s_use_full_module_graph (after_calls cs st)"
    using that by (auto simp: after_calls_full)
  show "s_use_optimized_module_handling (after_calls cs st) \<longleftrightarrow>
         Disable_optimized_module_handling \<notin> set cs" if "gates_initialized st"
    using that by (simp add: after_calls_optimized gates_initialized_def)
  show "s_use_full_module_graph (after_calls cs st) \<longleftrightarrow>
         Disable_full_module_graph \<notin> set cs" if "gates_initialized st"
    using that by (simp add: after_calls_full gates_initialized_def)
qed

theorem gate_flags_monotone_witness:
  "gates_initialized example_state \<and>
   fst (use_optimized_module_handling example_state) \<and>
   s_use_full_module_graph example_state \<and>
   \<not> s_use_optimized_module_handling
        (after_calls [Relocation_delta, Disable_optimized_module_handling] example_state) \<and>
   \<not> s_use_optimized_module_handling
        (after_calls ([Relocation_delta, Disable_optimized_module_handling]
           @ [Set_shared_rs (0, 0), Set_archive_loading_failed]) example_state) \<and>
   \<not> s_use_full_module_graph (after_calls [Disable_full_module_graph] example_state) \<and>
   \<not> s_use_full_module_graph
        (after_calls ([Disable_full_module_graph] @ [Requested_base_address]) example_state) \<and>
   s_use_full_module_graph
     (after_calls [Relocation_delta, Disable_optimized_module_handling] example_state)"
proof -
  have init: "gates_initialized example_state"
    by (simp add: gates_initialized_def example_state_def)
  have off1: "\<not> s_use_optimized_module_handling
        (after_calls [Relocation_delta, Disable_optimized_module_handling] example_state)"
    by (simp add: relocation_delta_def disable_optimized_module_handling_def)
  have off2: "\<not> s_use_full_module_graph (after_calls [Disable_full_module_graph] example_state)"
    by (simp add: disable_full_module_graph_def)
  from init off1
    gate_flags_monotone [of example_state Relocation_delta
      "[Relocation_delta, Disable_optimized_module_handling]"
      "[Set_shared_rs (0, 0), Set_archive_loading_failed]"]
  have a: "fst (use_optimized_module_handling example_state) \<and>
    s_use_full_module_graph example_state \<and>
    \<not> s_use_optimized_module_handling
        (after_calls ([Relocation_delta, Disable_optimized_module_handling]
           @ [Set_shared_rs (0, 0), Set_archive_loading_failed]) example_state) \<and>
    s_use_full_module_graph
     (after_calls [Relocation_delta, Disable_optimized_module_handling] example_state)"
    by simp
  from init off2
    gate_flags_monotone [of example_state Relocation_delta
      "[Disable_full_module_graph]" "[Requested_base_address]"]
  have b: "\<not> s_use_full_module_graph
        (after_calls ([Disable_full_module_graph] @ [Requested_base_address]) example_state)"
    by blast
  from init off1 off2 a b show ?thesis by blast
qed

subsection \<open>Remapping the read-only region\<close>

lemma fst_remap:
  "fst (remap_shared_readonly_as_readwrite g st) \<longleftrightarrow>
   \<not> UseSharedSpaces st \<or> s_remapped_readwrite st \<or> g"
  by (simp add: remap_shared_readonly_as_readwrite_def)

lemma snd_remap:
  "snd (remap_shared_readonly_as_readwrite g st) =
     (if UseSharedSpaces st \<and> \<not> s_remapped_readwrite st \<and> g
      then st\<lparr>s_remapped_readwrite := True,
               regions := (regions st)
                 (ro := map_option (\<lambda>r. r\<lparr>permission := read_write\<rparr>) (regions st ro))\<rparr>
      else st)"
  by (simp add: remap_shared_readonly_as_readwrite_def)

lemma remap_nothing_to_do:
  "\<not> UseSharedSpaces st \<or> s_remapped_readwrite st \<Longrightarrow>
   remap_shared_readonly_as_readwrite g st = (True, st)"
  by (simp add: remap_shared_readonly_as_readwrite_def)

text \<open>
  C6. Once the flag \<^verbatim>\<open>_remapped_readwrite\<close> is set, or when sharing is not enabled,
  a call returns true and changes nothing. A successful call with sharing enabled
  leaves the flag set, so that after any successful call every further call returns
  true and changes nothing. A call changes no region but \<open>ro\<close>, whose permission
  stays as it is or becomes read-write: a read-write region stays read-write.
\<close>

theorem remap_readonly_idempotent:
  "(s_remapped_readwrite st \<or> \<not> UseSharedSpaces st \<longrightarrow>
      remap_shared_readonly_as_readwrite g st = (True, st)) \<and>
   (UseSharedSpaces st \<and> fst (remap_shared_readonly_as_readwrite g st) \<longrightarrow>
      s_remapped_readwrite (snd (remap_shared_readonly_as_readwrite g st))) \<and>
   (fst (remap_shared_readonly_as_readwrite g st) \<longrightarrow>
      remap_shared_readonly_as_readwrite g' (snd (remap_shared_readonly_as_readwrite g st))
        = (True, snd (remap_shared_readonly_as_readwrite g st))) \<and>
   (\<forall>i. i \<noteq> ro \<longrightarrow>
      regions (snd (remap_shared_readonly_as_readwrite g st)) i = regions st i) \<and>
   (\<forall>i r. regions st i = Some r \<and> permission r = read_write \<longrightarrow>
      (\<exists>r'. regions (snd (remap_shared_readonly_as_readwrite g st)) i = Some r' \<and>
            permission r' = read_write)) \<and>
   (\<forall>r'. regions (snd (remap_shared_readonly_as_readwrite g st)) ro = Some r' \<longrightarrow>
      regions st ro = Some r' \<or> permission r' = read_write)"
proof (intro conjI impI allI)
  let ?st' = "snd (remap_shared_readonly_as_readwrite g st)"
  show "remap_shared_readonly_as_readwrite g st = (True, st)"
    if "s_remapped_readwrite st \<or> \<not> UseSharedSpaces st"
    using that remap_nothing_to_do [of st g] by blast
  show "s_remapped_readwrite ?st'"
    if "UseSharedSpaces st \<and> fst (remap_shared_readonly_as_readwrite g st)"
    using that by (auto simp: fst_remap snd_remap)
  show "remap_shared_readonly_as_readwrite g' ?st' = (True, ?st')"
    if ok: "fst (remap_shared_readonly_as_readwrite g st)"
  proof -
    from ok have "\<not> UseSharedSpaces ?st' \<or> s_remapped_readwrite ?st'"
      by (auto simp: fst_remap snd_remap)
    then show ?thesis
      by (rule remap_nothing_to_do)
  qed
  show "regions ?st' i = regions st i" if "i \<noteq> ro" for i
    using that by (simp add: snd_remap)
  show "\<exists>r'. regions ?st' i = Some r' \<and> permission r' = read_write"
    if "regions st i = Some r \<and> permission r = read_write" for i r
    using that by (auto simp: snd_remap)
  show "regions st ro = Some r' \<or> permission r' = read_write"
    if "regions ?st' ro = Some r'" for r'
    using that by (auto simp: snd_remap split: if_splits)
qed

lemma remap_example_state:
  "remap_shared_readonly_as_readwrite True example_state =
     (True, example_state\<lparr>s_remapped_readwrite := True,
        regions := example_regions
          (ro \<mapsto> \<lparr>mapped_base = 0x800003000, byte_size = 16384, permission = read_write\<rparr>)\<rparr>)"
  by (simp add: remap_shared_readonly_as_readwrite_def example_state_def example_regions_def
      mc_def rw_def ro_def bm_def)

theorem remap_readonly_idempotent_witness:
  "UseSharedSpaces example_state \<and>
   fst (remap_shared_readonly_as_readwrite True example_state) \<and>
   s_remapped_readwrite (snd (remap_shared_readonly_as_readwrite True example_state)) \<and>
   remap_shared_readonly_as_readwrite False (snd (remap_shared_readonly_as_readwrite True example_state))
     = (True, snd (remap_shared_readonly_as_readwrite True example_state)) \<and>
   remap_shared_readonly_as_readwrite True (example_state\<lparr>UseSharedSpaces := False\<rparr>)
     = (True, example_state\<lparr>UseSharedSpaces := False\<rparr>) \<and>
   regions (snd (remap_shared_readonly_as_readwrite True example_state)) rw = regions example_state rw \<and>
   (\<exists>r'. regions (snd (remap_shared_readonly_as_readwrite True example_state)) ro = Some r' \<and>
         permission r' = read_write)"
proof -
  let ?st = "snd (remap_shared_readonly_as_readwrite True example_state)"
  have use: "UseSharedSpaces example_state"
    by (simp add: example_state_def)
  have ok: "fst (remap_shared_readonly_as_readwrite True example_state)"
    by (simp add: remap_example_state)
  have neq: "rw \<noteq> ro"
    by (simp add: rw_def ro_def)
  have ro': "\<exists>r'. regions ?st ro = Some r'"
    by (simp add: remap_example_state)
  have off: "s_remapped_readwrite (example_state\<lparr>UseSharedSpaces := False\<rparr>) \<or>
    \<not> UseSharedSpaces (example_state\<lparr>UseSharedSpaces := False\<rparr>)"
    by simp
  have old: "regions example_state ro
    = Some \<lparr>mapped_base = 0x800003000, byte_size = 16384, permission = read_only\<rparr>"
    by (simp add: example_state_def example_regions_def mc_def rw_def ro_def bm_def)
  note a = remap_readonly_idempotent [of example_state True False]
  note b = remap_readonly_idempotent [of "example_state\<lparr>UseSharedSpaces := False\<rparr>" True False]
  from a use ok have 1: "s_remapped_readwrite ?st" by blast
  from a ok have 2: "remap_shared_readonly_as_readwrite False ?st = (True, ?st)" by blast
  from b off have 3: "remap_shared_readonly_as_readwrite True (example_state\<lparr>UseSharedSpaces := False\<rparr>)
     = (True, example_state\<lparr>UseSharedSpaces := False\<rparr>)" by blast
  from a neq have 4: "regions ?st rw = regions example_state rw" by blast
  from ro' obtain r' where r': "regions ?st ro = Some r'" by blast
  with a have "regions example_state ro = Some r' \<or> permission r' = read_write" by blast
  moreover have "regions example_state ro \<noteq> Some r'"
    using r' old by (auto simp: remap_example_state)
  ultimately have "permission r' = read_write" by blast
  with r' have 5: "\<exists>r'. regions ?st ro = Some r' \<and> permission r' = read_write" by blast
  from use ok 1 2 3 4 5 show ?thesis by blast
qed

subsection \<open>The queries\<close>

text \<open>
  C7. \<^verbatim>\<open>is_in_shared_metaspace\<close>, \<^verbatim>\<open>is_in_shared_region\<close>, \<^verbatim>\<open>relocation_delta\<close> and
  \<^verbatim>\<open>requested_base_address\<close> are reads: for every argument the state after the call
  is the state before it, every component included, and a second call with the same
  argument returns the same result.
\<close>

theorem queries_are_reads:
  "snd (is_in_shared_metaspace p st) = st \<and>
   snd (is_in_shared_region p idx st) = st \<and>
   snd (relocation_delta st) = st \<and>
   snd (requested_base_address st) = st \<and>
   fst (is_in_shared_metaspace p (snd (is_in_shared_metaspace p st)))
     = fst (is_in_shared_metaspace p st) \<and>
   fst (is_in_shared_region p idx (snd (is_in_shared_region p idx st)))
     = fst (is_in_shared_region p idx st) \<and>
   fst (relocation_delta (snd (relocation_delta st))) = fst (relocation_delta st) \<and>
   fst (requested_base_address (snd (requested_base_address st)))
     = fst (requested_base_address st) \<and>
   fst (relocation_delta st) = s_relocation_delta st \<and>
   fst (requested_base_address st) = s_requested_base_address st"
proof -
  have 1: "snd (is_in_shared_metaspace p st) = st"
    by (simp add: is_in_shared_metaspace_def)
  have 2: "snd (is_in_shared_region p idx st) = st"
    by (simp add: is_in_shared_region_def split: option.splits)
  have 3: "snd (relocation_delta st) = st"
    by (simp add: relocation_delta_def)
  have 4: "snd (requested_base_address st) = st"
    by (simp add: requested_base_address_def)
  have 5: "fst (relocation_delta st) = s_relocation_delta st"
    by (simp add: relocation_delta_def)
  have 6: "fst (requested_base_address st) = s_requested_base_address st"
    by (simp add: requested_base_address_def)
  from 1 2 3 4 5 6 show ?thesis by simp
qed

subsection \<open>The output space\<close>

text \<open>
  C10. \<^verbatim>\<open>is_in_output_space\<close> asserts \<^verbatim>\<open>DumpSharedSpaces\<close>. In dump mode the assertion
  holds and the result is what \<^verbatim>\<open>contains\<close> answers for the shared reserved space
  \<^verbatim>\<open>_shared_rs\<close> and the pointer; outside dump mode the assertion fails.
\<close>

theorem is_in_output_space_dump_mode:
  "(DumpSharedSpaces st \<longrightarrow>
      is_in_output_space contains ptr st = Inr (contains (s_shared_rs st) ptr)) \<and>
   (\<not> DumpSharedSpaces st \<longrightarrow>
      is_in_output_space contains ptr st = Inl (assert_failed ''must be''))"
  by (simp add: is_in_output_space_def shared_rs_def)

theorem is_in_output_space_dump_mode_witness:
  "DumpSharedSpaces (example_state\<lparr>DumpSharedSpaces := True, UseSharedSpaces := False\<rparr>) \<and>
   is_in_output_space example_contains 0x800003000
     (example_state\<lparr>DumpSharedSpaces := True, UseSharedSpaces := False\<rparr>) = Inr True \<and>
   is_in_output_space example_contains 0x800007200
     (example_state\<lparr>DumpSharedSpaces := True, UseSharedSpaces := False\<rparr>) = Inr False \<and>
   \<not> DumpSharedSpaces example_state \<and>
   is_in_output_space example_contains 0x800003000 example_state = Inl (assert_failed ''must be'')"
proof -
  let ?dump = "example_state\<lparr>DumpSharedSpaces := True, UseSharedSpaces := False\<rparr>"
  have d: "DumpSharedSpaces ?dump" by simp
  have n: "\<not> DumpSharedSpaces example_state" by (simp add: example_state_def)
  have rs: "s_shared_rs ?dump = (0x800000000, 0x7200)" by (simp add: example_state_def)
  have c1: "example_contains (0x800000000, 0x7200) 0x800003000"
    by (simp add: example_contains_def)
  have c2: "\<not> example_contains (0x800000000, 0x7200) 0x800007200"
    by (simp add: example_contains_def)
  from d rs c1 is_in_output_space_dump_mode [of ?dump example_contains "0x800003000"]
  have 1: "is_in_output_space example_contains 0x800003000 ?dump = Inr True" by simp
  from d rs c2 is_in_output_space_dump_mode [of ?dump example_contains "0x800007200"]
  have 2: "is_in_output_space example_contains 0x800007200 ?dump = Inr False" by simp
  from n is_in_output_space_dump_mode [of example_state example_contains "0x800003000"]
  have 3: "is_in_output_space example_contains 0x800003000 example_state
    = Inl (assert_failed ''must be'')" by blast
  from d n 1 2 3 show ?thesis by blast
qed

end
